theory Spec2Isabelle
  imports Complex_Main
begin

section \<open>Slop Pomodoro: the timer state machine and the dial's angle mapping\<close>

text \<open>
  A shallow embedding of the React application: the \<open>TimerState\<close> record of
  \<^verbatim>\<open>types.ts\<close>, the event handlers of the \<open>App\<close> component, the submit handler of
  \<open>TimeInputModal\<close> and the two angle functions of \<open>ConfigDial\<close>.

  Every handler of the source calls \<open>setState(prev => ...)\<close>; the model applies the
  updater to the current state at once, so the \<open>state\<close> a handler closes over and the
  \<open>prev\<close> its updater receives are the same record (one event per render).
\<close>

subsection \<open>JavaScript numbers and strings\<close>

text \<open>
  Every number that reaches the state machine is produced by \<open>parseInt\<close>, by
  \<open>Math.round\<close>/\<open>Math.floor\<close> or by integer arithmetic on such values, so it is an
  integer or \<open>NaN\<close>. Integers are unbounded here (the doubles of the source are exact
  up to \<open>2^53\<close>).  Comparisons with \<open>NaN\<close> are false and arithmetic on \<open>NaN\<close> gives
  \<open>NaN\<close>, as in the source language.
\<close>

datatype number = Num int | NaN

fun js_add :: "number \<Rightarrow> number \<Rightarrow> number" where
  "js_add (Num a) (Num b) = Num (a + b)"
| "js_add _ _ = NaN"

fun js_sub :: "number \<Rightarrow> number \<Rightarrow> number" where
  "js_sub (Num a) (Num b) = Num (a - b)"
| "js_sub _ _ = NaN"

fun js_mul :: "number \<Rightarrow> number \<Rightarrow> number" where
  "js_mul (Num a) (Num b) = Num (a * b)"
| "js_mul _ _ = NaN"

fun js_le :: "number \<Rightarrow> number \<Rightarrow> bool" where
  "js_le (Num a) (Num b) = (a \<le> b)"
| "js_le _ _ = False"

fun js_lt :: "number \<Rightarrow> number \<Rightarrow> bool" where
  "js_lt (Num a) (Num b) = (a < b)"
| "js_lt _ _ = False"

fun js_gt :: "number \<Rightarrow> number \<Rightarrow> bool" where
  "js_gt (Num a) (Num b) = (a > b)"
| "js_gt _ _ = False"

fun isNaN :: "number \<Rightarrow> bool" where
  "isNaN NaN = True"
| "isNaN (Num _) = False"

text \<open>\<open>Math.floor(x / 60)\<close>: the only division of the state machine.\<close>

fun floor_div60 :: "number \<Rightarrow> number" where
  "floor_div60 (Num a) = Num (a div 60)"
| "floor_div60 NaN = NaN"

text \<open>
  The remainder operator \<open>%\<close> takes the sign of the dividend.
\<close>

definition js_rem :: "int \<Rightarrow> int \<Rightarrow> int" where
  "js_rem a b = sgn a * (\<bar>a\<bar> mod \<bar>b\<bar>)"

text \<open>\<open>Math.round\<close>: the nearest integer, a tie going up.\<close>

definition Math_round :: "real \<Rightarrow> int" where
  "Math_round x = \<lfloor>x + 1 / 2\<rfloor>"

text \<open>
  Strings are lists of characters. \<open>Number.prototype.toString\<close> on an integer
  writes its decimal digits, with a minus sign for a negative one (the exponent
  notation of numbers from \<open>10^21\<close> on is outside the integers modelled); \<open>NaN\<close>
  prints as its name.
\<close>

definition digit_char :: "nat \<Rightarrow> char" where
  "digit_char d = ''0123456789'' ! d"

fun digits :: "nat \<Rightarrow> string" where
  "digits n = (if n < 10 then [digit_char n] else digits (n div 10) @ [digit_char (n mod 10)])"

declare digits.simps [simp del]

fun js_toString :: "number \<Rightarrow> string" where
  "js_toString (Num n) = (if n < 0 then CHR ''-'' # digits (nat (- n)) else digits (nat n))"
| "js_toString NaN = ''NaN''"

definition bool_toString :: "bool \<Rightarrow> string" where
  "bool_toString b = (if b then ''true'' else ''false'')"

text \<open>
  \<open>parseInt(s, 10)\<close>: skip leading white space, read an optional sign, then the
  longest run of decimal digits; no digit at all gives \<open>NaN\<close>. Anything after the
  digits is ignored. (The white space of the ASCII range is modelled.)
\<close>

definition isWhiteSpace :: "char \<Rightarrow> bool" where
  "isWhiteSpace c = (of_char c \<in> {9, 10, 11, 12, 13, 32 :: nat})"

definition isDigit :: "char \<Rightarrow> bool" where
  "isDigit c = (48 \<le> (of_char c :: nat) \<and> (of_char c :: nat) \<le> 57)"

definition digit_val :: "char \<Rightarrow> nat" where
  "digit_val c = of_char c - 48"

definition digits_val :: "string \<Rightarrow> nat" where
  "digits_val ds = foldl (\<lambda>acc c. 10 * acc + digit_val c) 0 ds"

definition parseInt :: "string \<Rightarrow> number" where
  "parseInt s =
     (let t = dropWhile isWhiteSpace s;
          neg = (t \<noteq> [] \<and> hd t = CHR ''-'');
          u = (if t \<noteq> [] \<and> (hd t = CHR ''-'' \<or> hd t = CHR ''+'') then tl t else t);
          z = takeWhile isDigit u
      in if z = [] then NaN
         else Num ((if neg then - 1 else 1) * int (digits_val z)))"

subsection \<open>The configuration dial (\<open>ConfigDial.tsx\<close>)\<close>

datatype TimerMode = Focus | Break

datatype TimerStatus = Idle | Running | Paused | Alarm

text \<open>The hardcoded limits \<open>minVal\<close> and \<open>maxVal\<close> of the dial, by mode.\<close>

definition minVal :: "TimerMode \<Rightarrow> int" where
  "minVal m = (if m = Focus then 5 else 1)"

definition maxVal :: "TimerMode \<Rightarrow> int" where
  "maxVal m = (if m = Focus then 60 else 30)"

definition getAngleForMinutes :: "int \<Rightarrow> int" where
  "getAngleForMinutes mins = js_rem mins 60 * 6"

text \<open>
  \<open>getMinutesForAngle\<close> closes over \<open>minVal\<close> and \<open>maxVal\<close>; here they are its first
  two arguments.
\<close>

definition getMinutesForAngle :: "int \<Rightarrow> int \<Rightarrow> real \<Rightarrow> int" where
  "getMinutesForAngle lo hi angle =
     (let mins = Math_round (angle / 6);
          mins = (if mins = 0 then 60 else mins)
      in min (max mins lo) hi)"

subsection \<open>The timer state (\<open>types.ts\<close>) and the persistent store\<close>

record TimerState =
  mode :: TimerMode
  status :: TimerStatus
  configOpen :: bool
  duration :: number
  remainingTime :: number
  sessionsCount :: number
  totalFocusTime :: number
  totalBreakTime :: number
  focusCompletedInCurrentCycle :: bool

definition DEFAULTS :: "TimerMode \<Rightarrow> number" where
  "DEFAULTS m = (case m of Focus \<Rightarrow> Num (25 * 60) | Break \<Rightarrow> Num (5 * 60))"

text \<open>
  \<open>STORAGE_KEYS\<close> is indexed by the mode for the two duration keys; its four other
  entries are constants of their own.
\<close>

definition STORAGE_KEYS :: "TimerMode \<Rightarrow> string" where
  "STORAGE_KEYS m =
     (case m of Focus \<Rightarrow> ''pomodoro_focus_duration'' | Break \<Rightarrow> ''pomodoro_break_duration'')"

definition STORAGE_KEYS_sessionsCount :: string where
  "STORAGE_KEYS_sessionsCount = ''pomodoro_sessions_count''"

definition STORAGE_KEYS_totalFocusTime :: string where
  "STORAGE_KEYS_totalFocusTime = ''pomodoro_total_focus_time''"

definition STORAGE_KEYS_totalBreakTime :: string where
  "STORAGE_KEYS_totalBreakTime = ''pomodoro_total_break_time''"

definition STORAGE_KEYS_focusCompletedInCurrentCycle :: string where
  "STORAGE_KEYS_focusCompletedInCurrentCycle = ''pomodoro_focus_cycle_flag''"

text \<open>
  \<open>localStorage\<close> maps keys to strings; \<open>getItem\<close> of a missing key is \<open>null\<close>
  (\<open>None\<close>). The idiom \<open>saved ? parseInt(saved, 10) : d\<close> takes the default for
  \<open>null\<close> and for the empty string, both falsy.
\<close>

type_synonym storage = "string \<rightharpoonup> string"

definition parseSaved :: "string option \<Rightarrow> number \<Rightarrow> number" where
  "parseSaved saved d =
     (case saved of None \<Rightarrow> d | Some v \<Rightarrow> if v = [] then d else parseInt v)"

definition getSavedDuration :: "storage \<Rightarrow> TimerMode \<Rightarrow> number" where
  "getSavedDuration ls m = parseSaved (ls (STORAGE_KEYS m)) (DEFAULTS m)"

subsection \<open>The \<open>App\<close> component\<close>

text \<open>
  What the component holds: the timer state, whether the numeric entry modal is open,
  the browser's \<open>localStorage\<close>, and whether the completion alert (looping sound and
  vibration) is on. The one-second interval is set exactly while the status is
  \<open>Running\<close> and calls \<open>tick\<close>; it is not a field.
\<close>

record App =
  state :: TimerState
  isInputModalOpen :: bool
  localStorage :: storage
  alertActive :: bool

definition initialState :: "storage \<Rightarrow> TimerState" where
  "initialState ls =
     (let focusDuration = getSavedDuration ls Focus
      in \<lparr> mode = Focus,
           status = Idle,
           configOpen = False,
           duration = focusDuration,
           remainingTime = focusDuration,
           sessionsCount = parseSaved (ls STORAGE_KEYS_sessionsCount) (Num 0),
           totalFocusTime = parseSaved (ls STORAGE_KEYS_totalFocusTime) (Num 0),
           totalBreakTime = parseSaved (ls STORAGE_KEYS_totalBreakTime) (Num 0),
           focusCompletedInCurrentCycle =
             (ls STORAGE_KEYS_focusCompletedInCurrentCycle = Some ''true'') \<rparr>)"

text \<open>
  The effect that persists the statistics. It runs after the first render and after
  every render that changed one of the four fields; writing them after every event
  stores the same strings.
\<close>

definition persistStats :: "App \<Rightarrow> App" where
  "persistStats a =
     a\<lparr> localStorage := (localStorage a)
          (STORAGE_KEYS_sessionsCount \<mapsto> js_toString (sessionsCount (state a)),
           STORAGE_KEYS_totalFocusTime \<mapsto> js_toString (totalFocusTime (state a)),
           STORAGE_KEYS_totalBreakTime \<mapsto> js_toString (totalBreakTime (state a)),
           STORAGE_KEYS_focusCompletedInCurrentCycle \<mapsto>
             bool_toString (focusCompletedInCurrentCycle (state a))) \<rparr>"

text \<open>Loading the page on a given store: the initial state, then the effect.\<close>

definition mount :: "storage \<Rightarrow> App" where
  "mount ls =
     persistStats \<lparr> state = initialState ls, isInputModalOpen = False,
                    localStorage = ls, alertActive = False \<rparr>"

definition triggerAlert :: "TimerMode \<Rightarrow> App \<Rightarrow> App" where
  "triggerAlert finishedMode a = a\<lparr> alertActive := True \<rparr>"

definition stopSound :: "App \<Rightarrow> App" where
  "stopSound a = a\<lparr> alertActive := False \<rparr>"

definition switchMode :: "App \<Rightarrow> App" where
  "switchMode a =
     (let prev = state a;
          newMode = (if mode prev = Focus then Break else Focus);
          newDuration = getSavedDuration (localStorage a) newMode
      in a\<lparr> state := prev\<lparr> mode := newMode,
                             status := Idle,
                             duration := newDuration,
                             remainingTime := newDuration \<rparr> \<rparr>)"

definition tick :: "App \<Rightarrow> App" where
  "tick a =
     (let prev = state a
      in if js_le (remainingTime prev) (Num 1) then
           (let isFocusFinish = (mode prev = Focus);
                newSessionsCount =
                  (if \<not> isFocusFinish \<and> focusCompletedInCurrentCycle prev
                   then js_add (sessionsCount prev) (Num 1) else sessionsCount prev);
                newFocusCompletedFlag =
                  (if isFocusFinish then True
                   else if focusCompletedInCurrentCycle prev then False
                   else focusCompletedInCurrentCycle prev)
            in (triggerAlert (mode prev) a)
                 \<lparr> state := prev
                    \<lparr> remainingTime := Num 0,
                      status := Alarm,
                      sessionsCount := newSessionsCount,
                      focusCompletedInCurrentCycle := newFocusCompletedFlag,
                      totalFocusTime :=
                        (if isFocusFinish
                         then js_add (totalFocusTime prev) (floor_div60 (duration prev))
                         else totalFocusTime prev),
                      totalBreakTime :=
                        (if \<not> isFocusFinish
                         then js_add (totalBreakTime prev) (floor_div60 (duration prev))
                         else totalBreakTime prev) \<rparr> \<rparr>)
         else a\<lparr> state := prev\<lparr> remainingTime := js_sub (remainingTime prev) (Num 1) \<rparr> \<rparr>)"

definition toggleTimer :: "App \<Rightarrow> App" where
  "toggleTimer a =
     (if status (state a) = Alarm then switchMode (stopSound a)
      else (let prev = state a
            in a\<lparr> state := prev\<lparr> configOpen := False,
                                   status := (if status prev = Running then Paused
                                              else Running) \<rparr> \<rparr>))"

definition resetTimer :: "App \<Rightarrow> App" where
  "resetTimer a0 =
     (let a = (if status (state a0) = Alarm then stopSound a0 else a0);
          prev = state a
      in if configOpen prev then
           (let factoryDefault = DEFAULTS (mode prev)
            in a\<lparr> localStorage := (localStorage a)
                     (STORAGE_KEYS (mode prev) \<mapsto> js_toString factoryDefault),
                  state := prev\<lparr> status := Idle,
                                  duration := factoryDefault,
                                  remainingTime := factoryDefault,
                                  focusCompletedInCurrentCycle := False \<rparr> \<rparr>)
         else a\<lparr> state := prev\<lparr> status := Idle,
                                 remainingTime := duration prev,
                                 focusCompletedInCurrentCycle := False \<rparr> \<rparr>)"

definition skipTimer :: "App \<Rightarrow> App" where
  "skipTimer a =
     switchMode (a\<lparr> state := (state a)\<lparr> focusCompletedInCurrentCycle := False \<rparr> \<rparr>)"

definition openConfig :: "App \<Rightarrow> App" where
  "openConfig a =
     (let prev = state a
      in a\<lparr> state := prev\<lparr> configOpen := True,
                             status := Paused,
                             remainingTime := duration prev \<rparr> \<rparr>)"

definition closeConfig :: "App \<Rightarrow> App" where
  "closeConfig a = a\<lparr> state := (state a)\<lparr> configOpen := False \<rparr> \<rparr>"

definition updateDuration :: "number \<Rightarrow> App \<Rightarrow> App" where
  "updateDuration newMinutes a =
     (let newSeconds = (if newMinutes = Num 0 then Num 1 else js_mul newMinutes (Num 60))
      in a\<lparr> localStorage := (localStorage a)
               (STORAGE_KEYS (mode (state a)) \<mapsto> js_toString (js_mul newMinutes (Num 60))),
            state := (state a)\<lparr> duration := newSeconds,
                                 remainingTime := newSeconds,
                                 status := Idle,
                                 focusCompletedInCurrentCycle := False \<rparr> \<rparr>)"

definition clearStats :: "App \<Rightarrow> App" where
  "clearStats a =
     a\<lparr> state := (state a)\<lparr> sessionsCount := Num 0,
                              totalFocusTime := Num 0,
                              totalBreakTime := Num 0,
                              focusCompletedInCurrentCycle := False \<rparr>,
         localStorage := (localStorage a)
           (STORAGE_KEYS_sessionsCount \<mapsto> ''0'',
            STORAGE_KEYS_totalFocusTime \<mapsto> ''0'',
            STORAGE_KEYS_totalBreakTime \<mapsto> ''0'',
            STORAGE_KEYS_focusCompletedInCurrentCycle \<mapsto> ''false'') \<rparr>"

text \<open>The two props the component passes to the modal: opening and confirming.\<close>

definition onTimeClick :: "App \<Rightarrow> App" where
  "onTimeClick a = a\<lparr> isInputModalOpen := True \<rparr>"

definition onClose :: "App \<Rightarrow> App" where
  "onClose a = a\<lparr> isInputModalOpen := False \<rparr>"

definition onConfirm :: "number \<Rightarrow> App \<Rightarrow> App" where
  "onConfirm mins a = (updateDuration mins a)\<lparr> isInputModalOpen := False \<rparr>"

subsection \<open>The numeric entry modal (\<open>TimeInputModal\<close>)\<close>

record ModalState =
  inputValue :: string
  error :: "string option"
  clickCount :: nat

definition modal_min :: "TimerMode \<Rightarrow> int" where
  "modal_min m = (if m = Focus then 5 else 1)"

definition modal_max :: "TimerMode \<Rightarrow> int" where
  "modal_max m = (if m = Focus then 60 else 30)"


definition isEasterEggActive :: "ModalState \<Rightarrow> bool" where
  "isEasterEggActive ms = (clickCount ms \<ge> 6)"



text \<open>
  \<open>handleSubmit\<close> either sets the error and returns, or calls \<open>onConfirm(mins)\<close>: the
  second component is the argument of that call, \<open>None\<close> when it is not made.
\<close>

definition handleSubmit :: "TimerMode \<Rightarrow> ModalState \<Rightarrow> ModalState \<times> number option" where
  "handleSubmit m ms =
     (let mins = parseInt (inputValue ms)
      in if \<not> isEasterEggActive ms \<and>
            (isNaN mins \<or> js_lt mins (Num (modal_min m)) \<or> js_gt mins (Num (modal_max m)))
         then (ms\<lparr> error := Some (''Value between '' @ js_toString (Num (modal_min m))
                                    @ '' and '' @ js_toString (Num (modal_max m))) \<rparr>, None)
         else if isEasterEggActive ms \<and> (isNaN mins \<or> js_lt mins (Num 0))
         then (ms\<lparr> error := Some ''Enter a valid number'' \<rparr>, None)
         else (ms, Some mins))"

text \<open>The modal rendered by \<open>App\<close> with \<open>mode = state.mode\<close>, its form submitted.\<close>

definition submitModal :: "ModalState \<times> App \<Rightarrow> ModalState \<times> App" where
  "submitModal p =
     (case p of (ms, a) \<Rightarrow>
        (case handleSubmit (mode (state a)) ms of
           (ms', None) \<Rightarrow> (ms', a)
         | (ms', Some mins) \<Rightarrow> (ms', onConfirm mins a)))"

subsection \<open>Reachable configurations\<close>

text \<open>
  The first load finds an empty store. Afterwards any handler may run, each followed
  by the persistence effect, and the page may be loaded again on the store left
  behind. The buttons are not all shown in every status (no skip during an alarm);
  leaving that out only adds configurations.
\<close>

inductive reachable :: "App \<Rightarrow> bool" where
  r_first: "reachable (mount Map.empty)"
| r_reload: "reachable a \<Longrightarrow> reachable (mount (localStorage a))"
| r_toggle: "reachable a \<Longrightarrow> reachable (persistStats (toggleTimer a))"
| r_tick: "reachable a \<Longrightarrow> reachable (persistStats (tick a))"
| r_switch: "reachable a \<Longrightarrow> reachable (persistStats (switchMode a))"
| r_skip: "reachable a \<Longrightarrow> reachable (persistStats (skipTimer a))"
| r_reset: "reachable a \<Longrightarrow> reachable (persistStats (resetTimer a))"
| r_open: "reachable a \<Longrightarrow> reachable (persistStats (openConfig a))"
| r_close: "reachable a \<Longrightarrow> reachable (persistStats (closeConfig a))"
| r_update: "reachable a \<Longrightarrow> 0 \<le> m \<Longrightarrow> reachable (persistStats (updateDuration (Num m) a))"
| r_clear: "reachable a \<Longrightarrow> reachable (persistStats (clearStats a))"
| r_modal_open: "reachable a \<Longrightarrow> reachable (persistStats (onTimeClick a))"
| r_modal_close: "reachable a \<Longrightarrow> reachable (persistStats (onClose a))"
| r_modal_submit: "reachable a \<Longrightarrow> reachable (persistStats (snd (submitModal (ms, a))))"




section \<open>Properties\<close>

subsection \<open>Decimal strings read back\<close>

lemma digit_cases: "d < 10 \<Longrightarrow> d \<in> {0, 1, 2, 3, 4, 5, 6, 7, 8, 9 :: nat}"
  by auto

lemma of_char_digit_char: "d < 10 \<Longrightarrow> (of_char (digit_char d) :: nat) = 48 + d"
  using digit_cases [of d] by (auto simp: digit_char_def)

lemma isDigit_digit_char: "d < 10 \<Longrightarrow> isDigit (digit_char d)"
  by (simp add: isDigit_def of_char_digit_char)

lemma digit_val_digit_char: "d < 10 \<Longrightarrow> digit_val (digit_char d) = d"
  by (simp add: digit_val_def of_char_digit_char)

lemma digits_nonempty: "digits n \<noteq> []"
  by (subst digits.simps) simp

lemma digits_all_digit: "c \<in> set (digits n) \<Longrightarrow> isDigit c"
proof (induction n rule: digits.induct)
  case (1 n)
  show ?case
  proof (cases "n < 10")
    case True
    with "1.prems" show ?thesis
      by (subst (asm) digits.simps) (simp add: isDigit_digit_char)
  next
    case False
    with "1.prems" have "c \<in> set (digits (n div 10)) \<or> c = digit_char (n mod 10)"
      by (subst (asm) digits.simps) auto
    with False "1.IH" show ?thesis
      by (auto simp: isDigit_digit_char)
  qed
qed

lemma digits_val_snoc: "digits_val (xs @ [c]) = 10 * digits_val xs + digit_val c"
  by (simp add: digits_val_def)

lemma digits_val_digits: "digits_val (digits n) = n"
proof (induction n rule: digits.induct)
  case (1 n)
  show ?case
  proof (cases "n < 10")
    case True
    then show ?thesis
      by (subst digits.simps) (simp add: digits_val_def digit_val_digit_char)
  next
    case False
    with "1.IH" have "digits_val (digits (n div 10)) = n div 10" by simp
    with False show ?thesis
      by (subst digits.simps) (simp add: digits_val_snoc digit_val_digit_char)
  qed
qed

lemma hd_digits_isDigit: "isDigit (hd (digits n))"
  using digits_nonempty [of n] digits_all_digit [of "hd (digits n)" n] by simp

lemma isDigit_not_space: "isDigit c \<Longrightarrow> \<not> isWhiteSpace c"
  by (auto simp: isDigit_def isWhiteSpace_def)

lemma isDigit_not_sign: "isDigit c \<Longrightarrow> c \<noteq> CHR ''-'' \<and> c \<noteq> CHR ''+''"
  by (auto simp: isDigit_def)

lemma takeWhile_digits: "takeWhile isDigit (digits n) = digits n"
  by (simp add: digits_all_digit)

lemma dropWhile_digits: "dropWhile isWhiteSpace (digits n) = digits n"
  using hd_digits_isDigit [of n] digits_nonempty [of n]
  by (cases "digits n") (auto simp: isDigit_not_space)

lemma parseInt_digits: "parseInt (digits n) = Num (int n)"
  using hd_digits_isDigit [of n] digits_nonempty [of n] isDigit_not_sign [of "hd (digits n)"]
  by (simp add: parseInt_def dropWhile_digits takeWhile_digits digits_val_digits)

lemma parseInt_minus_digits: "parseInt (CHR ''-'' # digits n) = Num (- int n)"
  by (simp add: parseInt_def isWhiteSpace_def takeWhile_digits digits_val_digits digits_nonempty)

lemma parseInt_toString: "parseInt (js_toString (Num n)) = Num n"
  by (simp add: parseInt_digits parseInt_minus_digits)

lemma toString_nonempty: "js_toString x \<noteq> []"
  by (cases x) (simp_all add: digits_nonempty)

lemma parseSaved_toString: "parseSaved (Some (js_toString (Num n))) d = Num n"
  using toString_nonempty [of "Num n"] parseInt_toString [of n]
  by (simp add: parseSaved_def del: js_toString.simps)

subsection \<open>The dial\<close>

lemma js_rem_nonneg: "0 \<le> a \<Longrightarrow> 0 < b \<Longrightarrow> js_rem a b = a mod b"
  unfolding js_rem_def by (cases "a = 0") auto

lemma round_int_angle: "Math_round (real_of_int (k * 6) / 6) = k"
  by (simp add: Math_round_def)

text \<open>
  C7. Round trip of the angle mapping: for every integer \<open>m\<close> within the bounds of a
  mode (5 to 60 for focus, 1 to 30 for break), the minutes read from the display angle
  of \<open>m\<close> are \<open>m\<close> again; this includes \<open>m = 60\<close>, whose angle is 0 degrees.
\<close>

theorem angle_round_trip:
  assumes "minVal md \<le> m" and "m \<le> maxVal md"
  shows "getMinutesForAngle (minVal md) (maxVal md) (real_of_int (getAngleForMinutes m)) = m"
proof -
  have pos: "1 \<le> m" "m \<le> 60"
    using assms by (auto simp: minVal_def maxVal_def split: if_splits)
  have ang: "getAngleForMinutes m = (m mod 60) * 6"
    using pos by (simp add: getAngleForMinutes_def js_rem_nonneg)
  show ?thesis
  proof (cases "m = 60")
    case True
    have "Math_round (real_of_int (getAngleForMinutes m) / 6) = 0"
      unfolding ang round_int_angle using True by simp
    then show ?thesis using assms True
      by (auto simp: getMinutesForAngle_def minVal_def maxVal_def split: if_splits)
  next
    case False
    then have "m mod 60 = m" using pos by simp
    then show ?thesis using assms pos
      by (simp add: ang getMinutesForAngle_def Math_round_def)
  qed
qed

theorem angle_round_trip_witness:
  "minVal Focus = 5 \<and> maxVal Focus = 60 \<and> getAngleForMinutes 60 = 0 \<and>
   getMinutesForAngle 5 60 (real_of_int (getAngleForMinutes 60)) = 60 \<and>
   minVal Break = 1 \<and> maxVal Break = 30 \<and>
   getMinutesForAngle 1 30 (real_of_int (getAngleForMinutes 17)) = 17"
  using angle_round_trip [of Focus 60] angle_round_trip [of Break 17]
  by (simp add: minVal_def maxVal_def getAngleForMinutes_def js_rem_def)

text \<open>
  C8. For every angle in \<open>[0, 360)\<close> and all bounds with
  \<open>1 \<le> minMinutes \<le> maxMinutes \<le> 60\<close>, the minutes computed from the angle lie within the
  bounds and are never 0. At 0 degrees the rounded value 0 is replaced by 60 and then
  clamped, which gives the maximum.
\<close>

theorem minutes_for_angle_in_bounds:
  assumes "0 \<le> angle" and "angle < 360" and "1 \<le> lo" and "lo \<le> hi" and "hi \<le> 60"
  shows "lo \<le> getMinutesForAngle lo hi angle \<and> getMinutesForAngle lo hi angle \<le> hi
     \<and> getMinutesForAngle lo hi angle \<noteq> 0
     \<and> getMinutesForAngle lo hi 0 = min (max 60 lo) hi
     \<and> getMinutesForAngle lo hi 0 = hi"
  using assms by (auto simp: getMinutesForAngle_def Math_round_def Let_def)

theorem minutes_for_angle_in_bounds_witness:
  "getMinutesForAngle 1 30 0 = 30 \<and> getMinutesForAngle 5 60 0 = 60 \<and>
   getMinutesForAngle 5 60 14 = 5 \<and> getMinutesForAngle 1 30 2 = 30 \<and>
   getMinutesForAngle 1 30 8 = 1"
  using minutes_for_angle_in_bounds [of 0 1 30] minutes_for_angle_in_bounds [of 14 5 60]
    minutes_for_angle_in_bounds [of 2 1 30] minutes_for_angle_in_bounds [of 8 1 30]
  by (simp add: getMinutesForAngle_def Math_round_def)

subsection \<open>The countdown\<close>








subsection \<open>Handlers, store and statistics\<close>

lemmas handler_defs = toggleTimer_def resetTimer_def skipTimer_def openConfig_def closeConfig_def
  updateDuration_def clearStats_def switchMode_def stopSound_def triggerAlert_def onTimeClick_def
  onClose_def onConfirm_def

lemmas load_defs = mount_def initialState_def getSavedDuration_def parseSaved_def DEFAULTS_def
  persistStats_def

lemma storage_keys_distinct:
  "STORAGE_KEYS m \<noteq> STORAGE_KEYS_sessionsCount"
  "STORAGE_KEYS m \<noteq> STORAGE_KEYS_totalFocusTime"
  "STORAGE_KEYS m \<noteq> STORAGE_KEYS_totalBreakTime"
  "STORAGE_KEYS m \<noteq> STORAGE_KEYS_focusCompletedInCurrentCycle"
  "STORAGE_KEYS Focus \<noteq> STORAGE_KEYS Break"
  by (simp_all add: STORAGE_KEYS_def STORAGE_KEYS_sessionsCount_def STORAGE_KEYS_totalFocusTime_def
      STORAGE_KEYS_totalBreakTime_def STORAGE_KEYS_focusCompletedInCurrentCycle_def split: TimerMode.split)

lemma state_persistStats: "state (persistStats a) = state a"
  by (simp add: persistStats_def)

lemma duration_key_persistStats:
  "localStorage (persistStats a) (STORAGE_KEYS m) = localStorage a (STORAGE_KEYS m)"
  by (simp add: persistStats_def storage_keys_distinct)

text \<open>
  C3. On the tick that reaches zero (at most 1 second remaining): when a focus session
  finishes, the cycle flag becomes true, \<open>floor(duration / 60)\<close> is added to the total
  focus time and the session count is unchanged; when a break finishes,
  \<open>floor(duration / 60)\<close> is added to the total break time, the session count grows by
  exactly 1 if the flag was true and not at all if it was false, and the flag is false
  afterwards.
\<close>

theorem completion_bookkeeping:
  assumes "js_le (remainingTime (state a)) (Num 1)"
  shows "(mode (state a) = Focus \<longrightarrow>
            focusCompletedInCurrentCycle (state (tick a)) \<and>
            totalFocusTime (state (tick a)) =
              js_add (totalFocusTime (state a)) (floor_div60 (duration (state a))) \<and>
            totalBreakTime (state (tick a)) = totalBreakTime (state a) \<and>
            sessionsCount (state (tick a)) = sessionsCount (state a)) \<and>
         (mode (state a) = Break \<longrightarrow>
            totalBreakTime (state (tick a)) =
              js_add (totalBreakTime (state a)) (floor_div60 (duration (state a))) \<and>
            totalFocusTime (state (tick a)) = totalFocusTime (state a) \<and>
            (focusCompletedInCurrentCycle (state a) \<longrightarrow>
               sessionsCount (state (tick a)) = js_add (sessionsCount (state a)) (Num 1)) \<and>
            (\<not> focusCompletedInCurrentCycle (state a) \<longrightarrow>
               sessionsCount (state (tick a)) = sessionsCount (state a)) \<and>
            \<not> focusCompletedInCurrentCycle (state (tick a)))"
  using assms by (simp add: tick_def Let_def triggerAlert_def)

theorem completion_bookkeeping_witness:
  "js_le (remainingTime (state
      \<lparr> state = \<lparr> mode = Break, status = Running, configOpen = False,
                  duration = Num 330, remainingTime = Num 1,
                  sessionsCount = Num 2, totalFocusTime = Num 50, totalBreakTime = Num 10,
                  focusCompletedInCurrentCycle = True \<rparr>,
        isInputModalOpen = False, localStorage = Map.empty, alertActive = False \<rparr>)) (Num 1) \<and>
   sessionsCount (state (tick
      \<lparr> state = \<lparr> mode = Break, status = Running, configOpen = False,
                  duration = Num 330, remainingTime = Num 1,
                  sessionsCount = Num 2, totalFocusTime = Num 50, totalBreakTime = Num 10,
                  focusCompletedInCurrentCycle = True \<rparr>,
        isInputModalOpen = False, localStorage = Map.empty, alertActive = False \<rparr>)) = Num 3 \<and>
   totalBreakTime (state (tick
      \<lparr> state = \<lparr> mode = Break, status = Running, configOpen = False,
                  duration = Num 330, remainingTime = Num 1,
                  sessionsCount = Num 2, totalFocusTime = Num 50, totalBreakTime = Num 10,
                  focusCompletedInCurrentCycle = True \<rparr>,
        isInputModalOpen = False, localStorage = Map.empty, alertActive = False \<rparr>)) = Num 15"
  using completion_bookkeeping [of
      "\<lparr> state = \<lparr> mode = Break, status = Running, configOpen = False,
                  duration = Num 330, remainingTime = Num 1,
                  sessionsCount = Num 2, totalFocusTime = Num 50, totalBreakTime = Num 10,
                  focusCompletedInCurrentCycle = True \<rparr>,
        isInputModalOpen = False, localStorage = Map.empty, alertActive = False \<rparr>"]
  by simp

text \<open>
  C5. Reset with the configuration overlay open puts the factory default of the mode
  (1500 seconds for focus, 300 for break) into the duration and the remaining time,
  stores it under the duration key of the mode, sets the status to \<open>Idle\<close> and clears
  the cycle flag. Reset with the overlay closed keeps the duration and writes nothing
  to the store (nor does the persistence effect that follows touch a duration key),
  sets the remaining time to the duration, the status to \<open>Idle\<close>, and clears the flag.
\<close>

theorem reset_behaviour:
  "(configOpen (state a) \<longrightarrow>
      duration (state (resetTimer a)) = DEFAULTS (mode (state a)) \<and>
      remainingTime (state (resetTimer a)) = DEFAULTS (mode (state a)) \<and>
      DEFAULTS Focus = Num 1500 \<and> DEFAULTS Break = Num 300 \<and>
      localStorage (resetTimer a) =
        (localStorage a)(STORAGE_KEYS (mode (state a)) \<mapsto> js_toString (DEFAULTS (mode (state a)))) \<and>
      getSavedDuration (localStorage (resetTimer a)) (mode (state a)) = DEFAULTS (mode (state a)) \<and>
      status (state (resetTimer a)) = Idle \<and>
      \<not> focusCompletedInCurrentCycle (state (resetTimer a))) \<and>
   (\<not> configOpen (state a) \<longrightarrow>
      duration (state (resetTimer a)) = duration (state a) \<and>
      localStorage (resetTimer a) = localStorage a \<and>
      (\<forall>m. localStorage (persistStats (resetTimer a)) (STORAGE_KEYS m) = localStorage a (STORAGE_KEYS m)) \<and>
      remainingTime (state (resetTimer a)) = duration (state a) \<and>
      status (state (resetTimer a)) = Idle \<and>
      \<not> focusCompletedInCurrentCycle (state (resetTimer a))) \<and>
   mode (state (resetTimer a)) = mode (state a)"
proof -
  have d: "DEFAULTS m = Num 1500 \<or> DEFAULTS m = Num 300" for m
    by (cases m) (simp_all add: DEFAULTS_def)
  have rb: "parseSaved (Some (js_toString (DEFAULTS m))) x = DEFAULTS m" for m x
    using d [of m] parseSaved_toString [of 1500 x] parseSaved_toString [of 300 x] by auto
  show ?thesis
    by (simp add: resetTimer_def stopSound_def Let_def getSavedDuration_def rb
        duration_key_persistStats del: js_toString.simps)
      (simp add: DEFAULTS_def)
qed


theorem reset_behaviour_witness:
  "configOpen (state (openConfig (updateDuration (Num 10) (mount Map.empty)))) \<and>
   duration (state (openConfig (updateDuration (Num 10) (mount Map.empty)))) = Num 600 \<and>
   localStorage (openConfig (updateDuration (Num 10) (mount Map.empty))) (STORAGE_KEYS Focus) = Some ''600'' \<and>
   duration (state (resetTimer (openConfig (updateDuration (Num 10) (mount Map.empty))))) = Num 1500 \<and>
   localStorage (resetTimer (openConfig (updateDuration (Num 10) (mount Map.empty)))) (STORAGE_KEYS Focus) = Some ''1500'' \<and>
   \<not> configOpen (state (updateDuration (Num 10) (mount Map.empty))) \<and>
   duration (state (resetTimer (updateDuration (Num 10) (mount Map.empty)))) = Num 600 \<and>
   localStorage (resetTimer (updateDuration (Num 10) (mount Map.empty))) (STORAGE_KEYS Focus) = Some ''600''"
proof -
  let ?u = "updateDuration (Num 10) (mount Map.empty)"
  have u: "\<not> configOpen (state ?u)" "mode (state ?u) = Focus" "duration (state ?u) = Num 600"
    "localStorage ?u (STORAGE_KEYS Focus) = Some ''600''"
    by (simp_all add: handler_defs load_defs Let_def digits.simps digit_char_def)
  have v: "configOpen (state (openConfig ?u))" "mode (state (openConfig ?u)) = Focus"
    "duration (state (openConfig ?u)) = Num 600" "localStorage (openConfig ?u) = localStorage ?u"
    using u by (simp_all add: openConfig_def Let_def)
  have t: "js_toString (Num 1500) = ''1500''" "DEFAULTS Focus = Num 1500"
    by (simp_all add: DEFAULTS_def digits.simps digit_char_def)
  show ?thesis
    using reset_behaviour [of ?u] reset_behaviour [of "openConfig ?u"] u v
    by (simp add: t del: js_toString.simps)
qed

text \<open>
  C6. Whatever the cycle flag was, skip clears it, flips the mode, sets the status to
  \<open>Idle\<close>, leaves the session count alone, and loads the duration of the new mode into
  both the duration and the remaining time: the default when the store has nothing
  under the key, the number parsed from the stored string otherwise, which is the
  number that was written when the string is a decimal the application stored.
\<close>

theorem skip_behaviour:
  "\<not> focusCompletedInCurrentCycle (state (skipTimer a)) \<and>
   mode (state (skipTimer a)) = (if mode (state a) = Focus then Break else Focus) \<and>
   status (state (skipTimer a)) = Idle \<and>
   sessionsCount (state (skipTimer a)) = sessionsCount (state a) \<and>
   remainingTime (state (skipTimer a)) = duration (state (skipTimer a)) \<and>
   (localStorage a (STORAGE_KEYS (mode (state (skipTimer a)))) = None \<longrightarrow>
      duration (state (skipTimer a)) = DEFAULTS (mode (state (skipTimer a)))) \<and>
   (\<forall>v. localStorage a (STORAGE_KEYS (mode (state (skipTimer a)))) = Some v \<and> v \<noteq> [] \<longrightarrow>
      duration (state (skipTimer a)) = parseInt v) \<and>
   (\<forall>n. localStorage a (STORAGE_KEYS (mode (state (skipTimer a)))) = Some (js_toString (Num n)) \<longrightarrow>
      duration (state (skipTimer a)) = Num n) \<and>
   localStorage (skipTimer a) = localStorage a"
  using parseSaved_toString
  by (auto simp add: skipTimer_def switchMode_def Let_def getSavedDuration_def parseSaved_def
      simp del: js_toString.simps)

theorem skip_behaviour_witness:
  "mode (state (skipTimer (mount Map.empty))) = Break \<and>
   localStorage (mount Map.empty) (STORAGE_KEYS Break) = None \<and>
   duration (state (skipTimer (mount Map.empty))) = Num 300 \<and>
   mode (state (skipTimer (skipTimer (updateDuration (Num 10) (mount Map.empty))))) = Focus \<and>
   localStorage (skipTimer (updateDuration (Num 10) (mount Map.empty))) (STORAGE_KEYS Focus)
     = Some (js_toString (Num 600)) \<and>
   duration (state (skipTimer (skipTimer (updateDuration (Num 10) (mount Map.empty))))) = Num 600"
proof -
  let ?m = "mount Map.empty"
  let ?u = "skipTimer (updateDuration (Num 10) ?m)"
  have m: "mode (state ?m) = Focus" "localStorage ?m (STORAGE_KEYS Break) = None"
    by (simp_all add: load_defs STORAGE_KEYS_def STORAGE_KEYS_sessionsCount_def STORAGE_KEYS_totalFocusTime_def
      STORAGE_KEYS_totalBreakTime_def STORAGE_KEYS_focusCompletedInCurrentCycle_def Let_def)
  have u: "mode (state ?u) = Break"
    "localStorage ?u (STORAGE_KEYS Focus) = Some (js_toString (Num 600))"
    using m by (simp_all add: skipTimer_def switchMode_def updateDuration_def Let_def del: js_toString.simps)
  show ?thesis
    using skip_behaviour [of ?m] skip_behaviour [of ?u] m u
    by (simp add: DEFAULTS_def del: js_toString.simps)
qed

subsection \<open>Manual entry\<close>









subsection \<open>Invariants of the reachable configurations\<close>

lemma storage_keys_inj: "STORAGE_KEYS m = STORAGE_KEYS k \<longleftrightarrow> m = k"
  by (cases m; cases k) (simp_all add: STORAGE_KEYS_def)

lemma getSavedDuration_stored:
  "getSavedDuration (ls(STORAGE_KEYS k \<mapsto> js_toString (Num n))) m =
     (if m = k then Num n else getSavedDuration ls m)"
  by (simp add: getSavedDuration_def storage_keys_inj parseSaved_toString del: js_toString.simps)






















text \<open>
  C10. In every reachable configuration a running countdown has the configuration
  overlay closed: toggle, the only handler that sets the status to \<open>Running\<close>, closes
  the overlay in the same update, and openConfig sets the status to \<open>Paused\<close>.
\<close>

theorem running_implies_config_closed:
  "reachable a \<Longrightarrow> status (state a) = Running \<longrightarrow> \<not> configOpen (state a)"
proof (induction rule: reachable.induct)
  case (r_tick a)
  then show ?case
    by (auto simp: state_persistStats tick_def Let_def triggerAlert_def split: if_splits)
next
  case (r_modal_submit a ms)
  then show ?case
    by (cases "handleSubmit (mode (state a)) ms")
      (auto simp: state_persistStats submitModal_def onConfirm_def updateDuration_def Let_def
        split: option.splits)
qed (auto simp: state_persistStats handler_defs mount_def initialState_def Let_def)

theorem running_implies_config_closed_witness:
  "reachable (persistStats (toggleTimer (persistStats (openConfig (mount Map.empty))))) \<and>
   configOpen (state (persistStats (openConfig (mount Map.empty)))) \<and>
   status (state (persistStats (openConfig (mount Map.empty)))) = Paused \<and>
   status (state (persistStats (toggleTimer (persistStats (openConfig (mount Map.empty)))))) = Running \<and>
   \<not> configOpen (state (persistStats (toggleTimer (persistStats (openConfig (mount Map.empty))))))"
proof -
  let ?o = "persistStats (openConfig (mount Map.empty))"
  let ?x = "persistStats (toggleTimer ?o)"
  have r: "reachable ?x"
    by (intro r_toggle r_open r_first)
  have o: "configOpen (state ?o)" "status (state ?o) = Paused"
    by (simp_all add: state_persistStats openConfig_def Let_def)
  then have "status (state ?x) = Running"
    by (simp add: state_persistStats toggleTimer_def Let_def)
  with running_implies_config_closed [OF r] r o show ?thesis by simp
qed

subsection \<open>Setting the duration\<close>

lemma updateDuration_state:
  "state (updateDuration (Num m) a) =
     (state a)\<lparr> duration := (if m = 0 then Num 1 else Num (m * 60)),
                remainingTime := (if m = 0 then Num 1 else Num (m * 60)),
                status := Idle,
                focusCompletedInCurrentCycle := False \<rparr>"
  by (simp add: updateDuration_def Let_def)

lemma updateDuration_persisted:
  "localStorage (updateDuration (Num m) a) (STORAGE_KEYS (mode (state a))) =
     Some (js_toString (Num (m * 60))) \<and>
   getSavedDuration (localStorage (updateDuration (Num m) a)) (mode (state a)) = Num (m * 60)"
  by (simp add: updateDuration_def Let_def getSavedDuration_stored del: js_toString.simps)

lemma updateDuration_nonzero:
  "m \<noteq> 0 \<Longrightarrow>
     getSavedDuration (localStorage (updateDuration (Num m) a)) (mode (state a)) =
       duration (state (updateDuration (Num m) a))"
  by (simp add: updateDuration_persisted updateDuration_state)

text \<open>
  C1. \<open>updateDuration\<close> sets the duration to \<open>minutes * 60\<close> seconds, or to 1 second for
  0 minutes, the remaining time to the same, the status to \<open>Idle\<close>, clears the cycle
  flag and stores \<open>minutes * 60\<close> under the duration key of the mode (the three lemmas
  above). For 0 minutes the stored string is therefore \<open>0\<close> while the duration is 1:
  on the first load with an empty store, after \<open>updateDuration(0)\<close> the duration is 1
  second, the store holds \<open>0\<close> under the focus key, and the duration read from the
  store (by \<open>getSavedDuration\<close>, after a reload, or after skipping to break and back)
  is 0.
\<close>

theorem updateDuration_zero_stores_zero:
  "duration (state (updateDuration (Num 0) (mount Map.empty))) = Num 1 \<and>
   remainingTime (state (updateDuration (Num 0) (mount Map.empty))) = Num 1 \<and>
   mode (state (mount Map.empty)) = Focus \<and>
   localStorage (updateDuration (Num 0) (mount Map.empty)) (STORAGE_KEYS Focus) = Some ''0'' \<and>
   getSavedDuration (localStorage (updateDuration (Num 0) (mount Map.empty))) Focus = Num 0 \<and>
   duration (state (mount (localStorage (updateDuration (Num 0) (mount Map.empty))))) = Num 0 \<and>
   duration (state (skipTimer (skipTimer (updateDuration (Num 0) (mount Map.empty))))) = Num 0"
proof -
  let ?m = "mount Map.empty"
  let ?u = "updateDuration (Num 0) ?m"
  have m: "mode (state ?m) = Focus"
    by (simp add: load_defs Let_def)
  have z: "js_toString (Num 0) = ''0''"
    by (simp add: digits.simps digit_char_def)
  have s: "duration (state ?u) = Num 1" "remainingTime (state ?u) = Num 1" "mode (state ?u) = Focus"
    using m by (simp_all add: updateDuration_state)
  have p: "localStorage ?u (STORAGE_KEYS Focus) = Some ''0''"
    "getSavedDuration (localStorage ?u) Focus = Num 0"
    using updateDuration_persisted [of 0 ?m] m z by simp_all
  have r: "duration (state (mount (localStorage ?u))) = Num 0"
    using p by (simp add: mount_def state_persistStats initialState_def Let_def)
  have k: "duration (state (skipTimer (skipTimer ?u))) = Num 0"
    using p s by (simp add: skipTimer_def switchMode_def Let_def)
  from s p r k m show ?thesis by simp
qed

end
